theory Spec2Isabelle
  imports Complex_Main
begin

section \<open>Tables and numeric cells\<close>

text \<open>
  The application (\<^verbatim>\<open>app.py\<close>) keeps its data in pandas tables. A table is modelled as
  an association list from column names to columns, in column order; a column is the
  list of its cells in row order. A cell is a float, modelled as a real number extended
  with the two infinities and NaN (rounding and the sign of zero are not modelled), or
  any non-numeric object, carried as text.
\<close>

datatype cell = Num real | PInf | NInf | NaN | Txt string

type_synonym column = "cell list"

type_synonym table = "(string \<times> column) list"

text \<open>
  Exceptions: the two that the table operations below raise themselves, and any exception
  raised by a collaborator, with its message.
\<close>

datatype exn = ValueError | TypeError | Raised string

definition columns :: "table \<Rightarrow> string list" where
  "columns df = map fst df"

definition get_col :: "table \<Rightarrow> string \<Rightarrow> column option" where
  "get_col df c = map_of df c"

text \<open>The number of rows is the length of the index, here of the first column.\<close>

definition nrows :: "table \<Rightarrow> nat" where
  "nrows df = (case df of [] \<Rightarrow> 0 | (c, v) # rest \<Rightarrow> length v)"

text \<open>
  \<^verbatim>\<open>df[c] = v\<close>: a column of that name is replaced where it stands, a new name is appended
  after the last column.
\<close>

definition set_col :: "string \<Rightarrow> column \<Rightarrow> table \<Rightarrow> table" where
  "set_col c v df =
     (if c \<in> set (columns df) then map (\<lambda>(k, old). if k = c then (k, v) else (k, old)) df
      else df @ [(c, v)])"

text \<open>
  Assigning an array or a list of the wrong length raises \<^verbatim>\<open>ValueError\<close>; assigning a scalar
  fills the column. (On a table without rows pandas instead takes the index from a
  list that is not empty; that takes more values than rows, which the prediction step
  meets only with a predictor that does not return one prediction for each row.)
\<close>

definition assign_values :: "string \<Rightarrow> column \<Rightarrow> table \<Rightarrow> exn + table" where
  "assign_values c v df =
     (if length v = nrows df then Inr (set_col c v df) else Inl ValueError)"

definition assign_scalar :: "string \<Rightarrow> cell \<Rightarrow> table \<Rightarrow> table" where
  "assign_scalar c x df = set_col c (replicate (nrows df) x) df"

subsection \<open>Float arithmetic of a column\<close>

definition is_txt :: "cell \<Rightarrow> bool" where
  "is_txt x = (case x of Txt s \<Rightarrow> True | _ \<Rightarrow> False)"

text \<open>The larger of two cells that are numbers or infinities.\<close>

fun fmax :: "cell \<Rightarrow> cell \<Rightarrow> cell" where
  "fmax PInf y = PInf"
| "fmax x PInf = PInf"
| "fmax NInf y = y"
| "fmax x NInf = x"
| "fmax (Num a) (Num b) = Num (max a b)"
| "fmax x y = x"

text \<open>
  \<^verbatim>\<open>Series.max()\<close> skips NaN; over no value at all it is NaN. A column holding text
  has no numeric maximum: the comparison, or the division that follows, raises
  \<^verbatim>\<open>TypeError\<close>.
\<close>

definition series_max :: "column \<Rightarrow> exn + cell" where
  "series_max xs =
     (if list_ex is_txt xs then Inl TypeError
      else (case filter (\<lambda>x. x \<noteq> NaN) xs of
              [] \<Rightarrow> Inr NaN
            | y # ys \<Rightarrow> Inr (foldl fmax y ys)))"

text \<open>
  Float division as pandas does it: no exception on a zero divisor, but an infinity,
  or NaN for \<open>0 / 0\<close>.
\<close>

fun fdiv :: "cell \<Rightarrow> cell \<Rightarrow> cell" where
  "fdiv (Num a) (Num b) =
     (if b \<noteq> 0 then Num (a / b)
      else if a > 0 then PInf else if a < 0 then NInf else NaN)"
| "fdiv (Num a) PInf = Num 0"
| "fdiv (Num a) NInf = Num 0"
| "fdiv PInf (Num b) = (if b < 0 then NInf else PInf)"
| "fdiv NInf (Num b) = (if b < 0 then PInf else NInf)"
| "fdiv x y = NaN"

section \<open>Enrichment of the predictions (\<^verbatim>\<open>main\<close>, lines 616 to 636)\<close>

text \<open>
  \<^verbatim>\<open>Series.rank(pct=True)\<close>: the rank of a value is the average of the positions its
  ties take in ascending order, divided by the number of values.
\<close>

definition rank_pct :: "real list \<Rightarrow> real list" where
  "rank_pct xs =
     map (\<lambda>v. (real (length (filter (\<lambda>x. x < v) xs))
               + (real (length (filter (\<lambda>x. x = v) xs)) + 1) / 2) / real (length xs)) xs"

definition percentile_rank :: "real list \<Rightarrow> real list" where
  "percentile_rank predicted_clv = map (\<lambda>r. r * 100) (rank_pct predicted_clv)"

definition confidence_lower :: "real \<Rightarrow> real" where
  "confidence_lower predicted_clv = predicted_clv * 0.8"

definition confidence_upper :: "real \<Rightarrow> real" where
  "confidence_upper predicted_clv = predicted_clv * 1.2"

text \<open>
  The churn risk of a batch, from its \<^verbatim>\<open>days_since_last_purchase\<close> column: every value
  divided by the maximum of the column.
\<close>

definition churn_risk :: "column \<Rightarrow> exn + column" where
  "churn_risk days =
     (case series_max days of
        Inl e \<Rightarrow> Inl e
      | Inr max_days \<Rightarrow> Inr (map (\<lambda>x. fdiv x max_days) days))"

text \<open>
  The segment labels. The application receives them from the predictor and compares
  them with the texts \<^verbatim>\<open>'Low Value'\<close>, \<^verbatim>\<open>'Medium Value'\<close>, \<^verbatim>\<open>'High Value'\<close>.
\<close>

datatype segment = Low_Value | Medium_Value | High_Value

fun label :: "segment \<Rightarrow> string" where
  "label Low_Value = ''Low Value''"
| "label Medium_Value = ''Medium Value''"
| "label High_Value = ''High Value''"

definition and_then :: "exn + 'a \<Rightarrow> ('a \<Rightarrow> exn + 'b) \<Rightarrow> exn + 'b" where
  "and_then r f = (case r of Inl e \<Rightarrow> Inl e | Inr x \<Rightarrow> f x)"

text \<open>
  Lines 617 and 618: the predictions table starts as a copy of the customer table and
  receives the raw predictions as column \<^verbatim>\<open>predicted_clv\<close>.
\<close>

definition attach_predictions :: "table \<Rightarrow> real list \<Rightarrow> exn + table" where
  "attach_predictions customer_data raw_predictions =
     assign_values ''predicted_clv'' (map Num raw_predictions) customer_data"

text \<open>
  Lines 621 to 636, one definition for each block of the source. The column
  \<^verbatim>\<open>predicted_clv\<close> that the source reads back is the one just assigned from
  \<^verbatim>\<open>raw_predictions\<close>, so the rank and the band are computed from that list. A series
  computed from a column of the table has the table's index, and its assignment cannot
  fail.
\<close>

definition add_segments :: "table \<Rightarrow> segment list \<Rightarrow> exn + table" where
  "add_segments predictions_df segments =
     assign_values ''customer_segment'' (map (\<lambda>g. Txt (label g)) segments) predictions_df"

definition add_percentile_rank :: "table \<Rightarrow> real list \<Rightarrow> table" where
  "add_percentile_rank predictions_df predicted_clv =
     set_col ''percentile_rank'' (map Num (percentile_rank predicted_clv)) predictions_df"

definition add_confidence :: "table \<Rightarrow> real list \<Rightarrow> table" where
  "add_confidence predictions_df predicted_clv =
     set_col ''confidence_upper'' (map (\<lambda>p. Num (confidence_upper p)) predicted_clv)
       (set_col ''confidence_lower'' (map (\<lambda>p. Num (confidence_lower p)) predicted_clv)
          predictions_df)"

definition add_churn_risk :: "table \<Rightarrow> exn + table" where
  "add_churn_risk predictions_df =
     (case get_col predictions_df ''days_since_last_purchase'' of
        Some days \<Rightarrow>
          and_then (churn_risk days) (\<lambda>risk. Inr (set_col ''churn_risk'' risk predictions_df))
      | None \<Rightarrow> Inr (assign_scalar ''churn_risk'' (Num 0.5) predictions_df))"

definition attach_derived :: "table \<Rightarrow> real list \<Rightarrow> segment list \<Rightarrow> exn + table" where
  "attach_derived predictions_df raw_predictions segments =
     and_then (add_segments predictions_df segments)
       (\<lambda>df. add_churn_risk
                (add_confidence (add_percentile_rank df raw_predictions) raw_predictions))"

definition enrich :: "table \<Rightarrow> real list \<Rightarrow> segment list \<Rightarrow> exn + table" where
  "enrich customer_data raw_predictions segments =
     and_then (attach_predictions customer_data raw_predictions)
       (\<lambda>predictions_df. attach_derived predictions_df raw_predictions segments)"

section \<open>The prediction step of \<^verbatim>\<open>main\<close> (lines 604 to 644)\<close>

text \<open>
  The predictor (\<^verbatim>\<open>clv_model.EnhancedCLVPredictor\<close>) is not among the sources. Its four
  methods that the step calls are parameters: each returns its result or raises, and
  none changes the table it is given. The types of the feature table and of the aligned
  matrix are left open.
\<close>

record ('f, 'x) predictor =
  create_advanced_features :: "table \<Rightarrow> exn + 'f"
  prepare_features_for_prediction :: "'f \<Rightarrow> exn + 'x"
  predict_clv :: "'x \<Rightarrow> exn + real list"
  segment_customers :: "real list \<Rightarrow> exn + segment list"

text \<open>The body of the \<^verbatim>\<open>if 'customer_id' in customer_data.columns\<close> branch, in source order.\<close>

definition pipeline :: "('f, 'x) predictor \<Rightarrow> table \<Rightarrow> exn + table" where
  "pipeline clv_predictor customer_data =
     and_then (create_advanced_features clv_predictor customer_data) (\<lambda>processed_data.
     and_then (prepare_features_for_prediction clv_predictor processed_data) (\<lambda>X.
     and_then (predict_clv clv_predictor X) (\<lambda>raw_predictions.
     and_then (attach_predictions customer_data raw_predictions) (\<lambda>predictions_df.
     and_then (segment_customers clv_predictor raw_predictions) (\<lambda>segments.
       attach_derived predictions_df raw_predictions segments)))))"

text \<open>
  The session state, as far as the modelled code reads or writes it, and the notices
  shown to the user (their leading pictograph is left out of the text). In the step
  below \<open>input_table\<close> is the local variable \<^verbatim>\<open>customer_data\<close> of \<^verbatim>\<open>main\<close>.
\<close>

record session =
  predictions :: "table option"
  customer_data :: "table option"
  manual_customers :: table
  trigger_prediction :: bool

datatype notice = Success string | Error string

text \<open>The text of an exception; for the two library exceptions a stand-in for pandas' own.\<close>

fun str :: "exn \<Rightarrow> string" where
  "str ValueError = ''Length of values does not match length of index''"
| "str TypeError = ''unsupported operand type(s)''"
| "str (Raised m) = m"

definition prediction_step ::
  "('f, 'x) predictor \<Rightarrow> bool \<Rightarrow> table \<Rightarrow> session \<Rightarrow> notice list \<times> session" where
  "prediction_step clv_predictor predict_button_clicked input_table s =
     (if predict_button_clicked \<or> trigger_prediction s then
        (if ''customer_id'' \<in> set (columns input_table) then
           (case pipeline clv_predictor input_table of
              Inr predictions_df \<Rightarrow>
                ([Success ''Predictions generated successfully!''],
                 s\<lparr>predictions := Some predictions_df, trigger_prediction := False\<rparr>)
            | Inl e \<Rightarrow> ([Error (''Prediction failed: '' @ str e)], s))
         else ([Error ''Invalid customer data format. Please check your input data.''], s))
      else ([], s))"

section \<open>Manual entry (\<^verbatim>\<open>handle_manual_entry\<close>, lines 114 to 192)\<close>

text \<open>
  The submitted form: the values of its widgets and the two submit buttons. A string is
  the list of its code points, which covers Latin-1 text.
\<close>

record form =
  customer_id :: string
  age :: int
  total_purchases :: int
  avg_order_value :: real
  days_since_first :: int
  days_since_last :: int
  acquisition_channel :: string
  location :: string
  subscription_status :: string
  add_customer :: bool
  add_and_predict :: bool

text \<open>\<^verbatim>\<open>str.strip()\<close> removes the white space of Python at both ends.\<close>

definition is_space :: "char \<Rightarrow> bool" where
  "is_space c =
     (let n = (of_char c :: nat)
      in (9 \<le> n \<and> n \<le> 13) \<or> (28 \<le> n \<and> n \<le> 32) \<or> n = 133 \<or> n = 160)"

definition strip :: "string \<Rightarrow> string" where
  "strip s = rev (dropWhile is_space (rev (dropWhile is_space s)))"

text \<open>\<^verbatim>\<open>DataFrame.empty\<close>: no column or no row.\<close>

definition empty_df :: "table \<Rightarrow> bool" where
  "empty_df df = (df = [] \<or> nrows df = 0)"

definition validation_errors :: "form \<Rightarrow> session \<Rightarrow> string list" where
  "validation_errors f s =
     (if strip (customer_id f) = [] then [''Customer ID cannot be empty!'']
      else if \<not> empty_df (manual_customers s)
              \<and> ''customer_id'' \<in> set (columns (manual_customers s))
              \<and> Txt (strip (customer_id f))
                  \<in> set (case get_col (manual_customers s) ''customer_id'' of
                            Some existing_ids \<Rightarrow> existing_ids | None \<Rightarrow> [])
           then [''Customer ID '' @ [CHR 0x27] @ customer_id f @ [CHR 0x27]
                 @ '' already exists!'']
           else [])
     @ (if age f < 18 \<or> age f > 100 then [''Age must be between 18 and 100!''] else [])
     @ (if total_purchases f < 0 then [''Total purchases cannot be negative!''] else [])
     @ (if avg_order_value f \<le> 0 then [''Average order value must be greater than 0!'']
        else [])
     @ (if days_since_first f < 1 then [''Days since first purchase must be at least 1!'']
        else [])
     @ (if days_since_last f < 0 then [''Days since last purchase cannot be negative!'']
        else [])
     @ (if days_since_last f > days_since_first f
        then [''Days since last purchase cannot be greater than days since first purchase!'']
        else [])"

definition new_customer :: "form \<Rightarrow> table" where
  "new_customer f =
     [(''customer_id'', [Txt (strip (customer_id f))]),
      (''age'', [Num (real_of_int (age f))]),
      (''total_purchases'', [Num (real_of_int (total_purchases f))]),
      (''avg_order_value'', [Num (avg_order_value f)]),
      (''days_since_first_purchase'', [Num (real_of_int (days_since_first f))]),
      (''days_since_last_purchase'', [Num (real_of_int (days_since_last f))]),
      (''acquisition_channel'', [Txt (acquisition_channel f)]),
      (''location'', [Txt (location f)]),
      (''subscription_status'', [Txt (subscription_status f)])]"

text \<open>
  \<^verbatim>\<open>pd.concat([a, b], ignore_index=True)\<close>: the rows of \<open>b\<close> under those of \<open>a\<close>, over the
  columns of both; a cell that a table lacks is NaN.
\<close>

definition concat_rows :: "table \<Rightarrow> table \<Rightarrow> table" where
  "concat_rows a b =
     map (\<lambda>(c, va). (c, va @ (case get_col b c of
                                 Some vb \<Rightarrow> vb
                               | None \<Rightarrow> replicate (nrows b) NaN))) a
     @ map (\<lambda>(c, vb). (c, replicate (nrows a) NaN @ vb))
         (filter (\<lambda>(c, vb). c \<notin> set (columns a)) b)"

fun decimal :: "nat \<Rightarrow> string" where
  "decimal n =
     (if n < 10 then [''0123456789'' ! n]
      else decimal (n div 10) @ [''0123456789'' ! (n mod 10)])"

text \<open>
  The function returns whether customers are held, and leaves notices in the sidebar
  and the new session state.
\<close>

definition handle_manual_entry :: "form \<Rightarrow> session \<Rightarrow> bool \<times> notice list \<times> session" where
  "handle_manual_entry f s =
     (let (shown, s') =
        (if add_customer f \<or> add_and_predict f then
           (let errors = validation_errors f s
            in if errors \<noteq> [] then (map Error errors, s)
               else
                 (let manual =
                        (if empty_df (manual_customers s) then new_customer f
                         else concat_rows (manual_customers s) (new_customer f));
                      s1 = s\<lparr>manual_customers := manual, customer_data := Some manual\<rparr>
                  in ([Success (''Customer '' @ customer_id f @ '' added! Total: ''
                               @ decimal (nrows manual))],
                      if add_and_predict f then s1\<lparr>trigger_prediction := True\<rparr> else s1)))
         else ([], s))
      in (\<not> empty_df (manual_customers s'), shown, s'))"

section \<open>The properties in the words of the specification\<close>

text \<open>The six columns that the prediction step adds, in the order of their assignment.\<close>

definition new_columns :: "string list" where
  "new_columns = [''predicted_clv'', ''customer_segment'', ''percentile_rank'',
     ''confidence_lower'', ''confidence_upper'', ''churn_risk'']"

text \<open>
  Modelled from the spec: the range of what \<^verbatim>\<open>predict_clv\<close> of
  \<^verbatim>\<open>clv_model.EnhancedCLVPredictor\<close>, which is not among the sources, returns. The
  specification (3, 4.5) has it return one float for each row, none of them negative.
\<close>

definition predicted_in_range :: "real list \<Rightarrow> bool" where
  "predicted_in_range raw_predictions = list_all (\<lambda>p. 0 \<le> p) raw_predictions"

text \<open>The columns of a customer record (\<^verbatim>\<open>main\<close>, lines 417 to 426).\<close>

definition customer_record_columns :: "string list" where
  "customer_record_columns = [''customer_id'', ''age'', ''total_purchases'',
     ''avg_order_value'', ''days_since_first_purchase'', ''days_since_last_purchase'',
     ''acquisition_channel'', ''location'', ''subscription_status'']"

text \<open>A cell that is a number of at least zero, and one that is a number from 0 to 1.\<close>

definition nonneg_cell :: "cell \<Rightarrow> bool" where
  "nonneg_cell x = (case x of Num r \<Rightarrow> 0 \<le> r | _ \<Rightarrow> False)"

definition unit_cell :: "cell \<Rightarrow> bool" where
  "unit_cell x = (case x of Num r \<Rightarrow> 0 \<le> r \<and> r \<le> 1 | _ \<Rightarrow> False)"

text \<open>
  The constraints of a customer record that the specification lists for manual entry,
  when a submitted form violates each, and the message that reports it. A customer id
  counts as a duplicate when, stripped, it is not empty and the table, not empty
  itself, already holds it.
\<close>

datatype constraint =
  Id_Empty | Id_Duplicate | Age_Range | Purchases_Negative | Order_Value_Not_Positive
  | First_Below_One | Last_Negative | Last_After_First

definition all_constraints :: "constraint list" where
  "all_constraints = [Id_Empty, Id_Duplicate, Age_Range, Purchases_Negative,
     Order_Value_Not_Positive, First_Below_One, Last_Negative, Last_After_First]"

fun violated :: "constraint \<Rightarrow> form \<Rightarrow> session \<Rightarrow> bool" where
  "violated Id_Empty f s = (strip (customer_id f) = [])"
| "violated Id_Duplicate f s =
     (strip (customer_id f) \<noteq> []
      \<and> \<not> empty_df (manual_customers s)
      \<and> (case get_col (manual_customers s) ''customer_id'' of
             Some ids \<Rightarrow> Txt (strip (customer_id f)) \<in> set ids
           | None \<Rightarrow> False))"
| "violated Age_Range f s = (age f < 18 \<or> 100 < age f)"
| "violated Purchases_Negative f s = (total_purchases f < 0)"
| "violated Order_Value_Not_Positive f s = (avg_order_value f \<le> 0)"
| "violated First_Below_One f s = (days_since_first f < 1)"
| "violated Last_Negative f s = (days_since_last f < 0)"
| "violated Last_After_First f s = (days_since_first f < days_since_last f)"

fun message :: "constraint \<Rightarrow> form \<Rightarrow> string" where
  "message Id_Empty f = ''Customer ID cannot be empty!''"
| "message Id_Duplicate f =
     ''Customer ID '' @ [CHR 0x27] @ customer_id f @ [CHR 0x27] @ '' already exists!''"
| "message Age_Range f = ''Age must be between 18 and 100!''"
| "message Purchases_Negative f = ''Total purchases cannot be negative!''"
| "message Order_Value_Not_Positive f = ''Average order value must be greater than 0!''"
| "message First_Below_One f = ''Days since first purchase must be at least 1!''"
| "message Last_Negative f = ''Days since last purchase cannot be negative!''"
| "message Last_After_First f =
     ''Days since last purchase cannot be greater than days since first purchase!''"

subsection \<open>Segmentation\<close>

text \<open>
  The two thresholds that the specification (4.3) has the training fix: the tercile cut
  points of the training predictions.
\<close>

record thresholds =
  low_cut :: real
  high_cut :: real

text \<open>
  Modelled from the spec: the labelling of one value by \<^verbatim>\<open>segment_customers\<close> of
  \<^verbatim>\<open>clv_model.EnhancedCLVPredictor\<close>, which is not among the sources. The specification
  (4.6) has it assign one of the three ordered labels by the thresholds fixed at
  training time, not recomputed from the batch. A value up to the lower threshold is of
  low value, one above it and up to the upper threshold of medium value, any greater
  one of high value.
\<close>

definition segment_of :: "thresholds \<Rightarrow> real \<Rightarrow> segment" where
  "segment_of th v =
     (if v \<le> low_cut th then Low_Value
      else if v \<le> high_cut th then Medium_Value
      else High_Value)"

text \<open>
  Modelled from the spec: \<^verbatim>\<open>segment_customers\<close> itself, one label for each value of the
  sequence, in its order.
\<close>

definition segment_by_thresholds :: "thresholds \<Rightarrow> real list \<Rightarrow> segment list" where
  "segment_by_thresholds th predicted = map (segment_of th) predicted"

text \<open>The order of the labels: low, then medium, then high.\<close>

fun segment_rank :: "segment \<Rightarrow> nat" where
  "segment_rank Low_Value = 0"
| "segment_rank Medium_Value = 1"
| "segment_rank High_Value = 2"

definition segment_le :: "segment \<Rightarrow> segment \<Rightarrow> bool" where
  "segment_le a b = (segment_rank a \<le> segment_rank b)"

section \<open>Facts about tables\<close>

lemma map_of_replace_same:
  "c \<in> fst ` set df \<Longrightarrow>
     map_of (map (\<lambda>(k, old). if k = c then (k, v) else (k, old)) df) c = Some v"
  by (induction df) (auto split: prod.splits)

lemma map_of_replace_other:
  "c' \<noteq> c \<Longrightarrow>
     map_of (map (\<lambda>(k, old). if k = c then (k, v) else (k, old)) df) c' = map_of df c'"
  by (induction df) (auto split: prod.splits)

lemma columns_replace:
  "columns (map (\<lambda>(k, old). if k = c then (k, v) else (k, old)) df) = columns df"
  by (induction df) (auto simp: columns_def split: prod.splits)

lemma columns_append: "columns (df @ df') = columns df @ columns df'"
  by (simp add: columns_def)

lemma get_col_set_col_same: "get_col (set_col c v df) c = Some v"
proof (cases "c \<in> fst ` set df")
  case True
  then show ?thesis
    by (simp add: get_col_def set_col_def columns_def map_of_replace_same)
next
  case False
  then have "map_of df c = None"
    by (simp add: map_of_eq_None_iff)
  with False show ?thesis
    by (simp add: get_col_def set_col_def columns_def map_add_def)
qed

lemma get_col_set_col_other: "c' \<noteq> c \<Longrightarrow> get_col (set_col c v df) c' = get_col df c'"
  by (simp add: get_col_def set_col_def map_of_replace_other map_add_def split: option.splits)

lemma columns_set_col:
  "columns (set_col c v df) = columns df @ (if c \<in> set (columns df) then [] else [c])"
  by (simp add: set_col_def columns_replace columns_append) (simp add: columns_def)

lemma nrows_set_col: "length v = nrows df \<Longrightarrow> nrows (set_col c v df) = nrows df"
  by (cases df) (auto simp: set_col_def columns_def nrows_def)

lemma and_then_Inr_iff: "and_then r f = Inr y \<longleftrightarrow> (\<exists>x. r = Inr x \<and> f x = Inr y)"
  by (cases r) (simp_all add: and_then_def)

lemma and_then_Inl_iff:
  "and_then r f = Inl e \<longleftrightarrow> r = Inl e \<or> (\<exists>x. r = Inr x \<and> f x = Inl e)"
  by (cases r) (simp_all add: and_then_def)

section \<open>Facts about the enrichment\<close>

lemma add_churn_risk_frame:
  "add_churn_risk df = Inr out \<Longrightarrow> c \<noteq> ''churn_risk'' \<Longrightarrow> get_col out c = get_col df c"
  by (auto simp: add_churn_risk_def and_then_Inr_iff assign_scalar_def get_col_set_col_other
      split: option.splits)

lemma add_churn_risk_columns:
  "add_churn_risk df = Inr out \<Longrightarrow>
     columns out
       = columns df @ (if ''churn_risk'' \<in> set (columns df) then [] else [''churn_risk''])"
  by (auto simp: add_churn_risk_def and_then_Inr_iff assign_scalar_def columns_set_col
      split: option.splits)

text \<open>A successful enrichment took every step, on tables of the right length.\<close>

lemma enrich_steps:
  "enrich d ps gs = Inr out \<longleftrightarrow>
     length ps = nrows d \<and> length gs = nrows d \<and>
     add_churn_risk (add_confidence (add_percentile_rank
       (set_col ''customer_segment'' (map (\<lambda>g. Txt (label g)) gs)
          (set_col ''predicted_clv'' (map Num ps) d)) ps) ps) = Inr out"
  by (auto simp: enrich_def attach_derived_def attach_predictions_def add_segments_def
      assign_values_def and_then_Inr_iff nrows_set_col)

lemma enrich_frame:
  assumes "enrich d ps gs = Inr out" and "c \<notin> set new_columns"
  shows "get_col out c = get_col d c"
proof -
  from assms(2) have ne: "c \<noteq> ''predicted_clv''" "c \<noteq> ''customer_segment''"
    "c \<noteq> ''percentile_rank''" "c \<noteq> ''confidence_lower''" "c \<noteq> ''confidence_upper''"
    "c \<noteq> ''churn_risk''"
    by (auto simp: new_columns_def)
  from assms(1) have "get_col out c = get_col (add_confidence (add_percentile_rank
       (set_col ''customer_segment'' (map (\<lambda>g. Txt (label g)) gs)
          (set_col ''predicted_clv'' (map Num ps) d)) ps) ps) c"
    using add_churn_risk_frame[OF _ ne(6)] by (simp add: enrich_steps)
  also have "\<dots> = get_col d c"
    using ne by (simp add: add_confidence_def add_percentile_rank_def get_col_set_col_other)
  finally show ?thesis .
qed

lemma enrich_columns:
  assumes "enrich d ps gs = Inr out"
  shows "columns out = columns d @ filter (\<lambda>c. c \<notin> set (columns d)) new_columns"
proof -
  let ?df = "add_confidence (add_percentile_rank
       (set_col ''customer_segment'' (map (\<lambda>g. Txt (label g)) gs)
          (set_col ''predicted_clv'' (map Num ps) d)) ps) ps"
  have "columns ?df = columns d @ filter (\<lambda>c. c \<notin> set (columns d)) (butlast new_columns)"
    by (simp add: add_confidence_def add_percentile_rank_def columns_set_col new_columns_def)
  moreover from assms have "add_churn_risk ?df = Inr out"
    by (simp add: enrich_steps)
  ultimately show ?thesis
    using add_churn_risk_columns[of ?df out] by (simp add: new_columns_def)
qed

text \<open>What the columns computed from the predictions hold after a successful enrichment.\<close>

lemma enrich_prediction_columns:
  assumes "enrich d ps gs = Inr out"
  shows "get_col out ''predicted_clv'' = Some (map Num ps)"
    and "get_col out ''customer_segment'' = Some (map (\<lambda>g. Txt (label g)) gs)"
    and "get_col out ''percentile_rank'' = Some (map Num (percentile_rank ps))"
    and "get_col out ''confidence_lower'' = Some (map (\<lambda>p. Num (confidence_lower p)) ps)"
    and "get_col out ''confidence_upper'' = Some (map (\<lambda>p. Num (confidence_upper p)) ps)"
proof -
  let ?df = "add_confidence (add_percentile_rank
       (set_col ''customer_segment'' (map (\<lambda>g. Txt (label g)) gs)
          (set_col ''predicted_clv'' (map Num ps) d)) ps) ps"
  from assms have step: "add_churn_risk ?df = Inr out"
    by (simp add: enrich_steps)
  have same: "get_col out c = get_col ?df c" if "c \<noteq> ''churn_risk''" for c
    using add_churn_risk_frame[OF step that] .
  show "get_col out ''predicted_clv'' = Some (map Num ps)"
    by (simp add: same add_confidence_def add_percentile_rank_def get_col_set_col_other
        get_col_set_col_same)
  show "get_col out ''customer_segment'' = Some (map (\<lambda>g. Txt (label g)) gs)"
    by (simp add: same add_confidence_def add_percentile_rank_def get_col_set_col_other
        get_col_set_col_same)
  show "get_col out ''percentile_rank'' = Some (map Num (percentile_rank ps))"
    by (simp add: same add_confidence_def add_percentile_rank_def get_col_set_col_other
        get_col_set_col_same)
  show "get_col out ''confidence_lower'' = Some (map (\<lambda>p. Num (confidence_lower p)) ps)"
    by (simp add: same add_confidence_def add_percentile_rank_def get_col_set_col_other
        get_col_set_col_same)
  show "get_col out ''confidence_upper'' = Some (map (\<lambda>p. Num (confidence_upper p)) ps)"
    by (simp add: same add_confidence_def add_percentile_rank_def get_col_set_col_other
        get_col_set_col_same)
qed

text \<open>The definitions that the evaluation of the enrichment on a concrete table unfolds.\<close>

lemmas enrich_eval =
  enrich_def attach_predictions_def attach_derived_def add_segments_def
  add_percentile_rank_def add_confidence_def add_churn_risk_def assign_values_def
  assign_scalar_def set_col_def columns_def get_col_def nrows_def and_then_def
  percentile_rank_def rank_pct_def confidence_lower_def confidence_upper_def
  churn_risk_def series_max_def is_txt_def

section \<open>The confidence band\<close>

text \<open>
  C1. Every row's \<^verbatim>\<open>confidence_lower\<close> is 0.8 times and its \<^verbatim>\<open>confidence_upper\<close> 1.2
  times its \<^verbatim>\<open>predicted_clv\<close>, and for every predicted value, which \<^verbatim>\<open>predict_clv\<close>
  returns in its range, the band brackets it: \<open>confidence_lower \<le> predicted_clv \<le>
  confidence_upper\<close>.
\<close>

theorem confidence_band:
  assumes "enrich d ps gs = Inr out" and "predicted_in_range ps"
  shows "get_col out ''predicted_clv'' = Some (map Num ps)
       \<and> get_col out ''confidence_lower'' = Some (map (\<lambda>p. Num (0.8 * p)) ps)
       \<and> get_col out ''confidence_upper'' = Some (map (\<lambda>p. Num (1.2 * p)) ps)
       \<and> (\<forall>p\<in>set ps. confidence_lower p \<le> p \<and> p \<le> confidence_upper p)"
proof -
  have "confidence_lower p = 0.8 * p" and "confidence_upper p = 1.2 * p" for p
    by (simp_all add: confidence_lower_def confidence_upper_def)
  moreover have "confidence_lower p \<le> p \<and> p \<le> confidence_upper p" if "p \<in> set ps" for p
  proof -
    from that assms(2) have "0 \<le> p"
      by (simp add: predicted_in_range_def list_all_iff)
    then show ?thesis
      by (simp add: confidence_lower_def confidence_upper_def)
  qed
  ultimately show ?thesis
    using enrich_prediction_columns[OF assms(1)] by simp
qed

text \<open>
  The scenario of the specification: one customer with 10 purchases of 50 on average,
  first 200 and last 20 days ago, here with a predicted value of 250.
\<close>

theorem confidence_band_witness:
  "enrich [(''customer_id'', [Txt ''C1'']), (''total_purchases'', [Num 10]),
           (''avg_order_value'', [Num 50]), (''days_since_first_purchase'', [Num 200]),
           (''days_since_last_purchase'', [Num 20])]
       [250] [Medium_Value]
     = Inr [(''customer_id'', [Txt ''C1'']), (''total_purchases'', [Num 10]),
            (''avg_order_value'', [Num 50]), (''days_since_first_purchase'', [Num 200]),
            (''days_since_last_purchase'', [Num 20]), (''predicted_clv'', [Num 250]),
            (''customer_segment'', [Txt ''Medium Value'']), (''percentile_rank'', [Num 100]),
            (''confidence_lower'', [Num 200]), (''confidence_upper'', [Num 300]),
            (''churn_risk'', [Num 1])]
   \<and> predicted_in_range [250]
   \<and> confidence_lower 250 = 200 \<and> confidence_upper 250 = 300
   \<and> confidence_lower 250 \<le> 250 \<and> 250 \<le> confidence_upper 250"
proof -
  have run: "enrich [(''customer_id'', [Txt ''C1'']), (''total_purchases'', [Num 10]),
           (''avg_order_value'', [Num 50]), (''days_since_first_purchase'', [Num 200]),
           (''days_since_last_purchase'', [Num 20])]
       [250] [Medium_Value]
     = Inr [(''customer_id'', [Txt ''C1'']), (''total_purchases'', [Num 10]),
            (''avg_order_value'', [Num 50]), (''days_since_first_purchase'', [Num 200]),
            (''days_since_last_purchase'', [Num 20]), (''predicted_clv'', [Num 250]),
            (''customer_segment'', [Txt ''Medium Value'']), (''percentile_rank'', [Num 100]),
            (''confidence_lower'', [Num 200]), (''confidence_upper'', [Num 300]),
            (''churn_risk'', [Num 1])]"
    by (simp add: enrich_eval)
  have range: "predicted_in_range [250]"
    by (simp add: predicted_in_range_def)
  have band: "confidence_lower 250 = 200" "confidence_upper 250 = 300"
    by (simp_all add: confidence_lower_def confidence_upper_def)
  show ?thesis
    using run range band confidence_band[OF run range] by simp
qed

section \<open>The percentile rank\<close>

lemma filter_less_equal_length:
  "length (filter (\<lambda>x. x < v) xs) + length (filter (\<lambda>x. x = v) xs) \<le> length (xs :: real list)"
  by (induction xs) auto

lemma rank_pct_bounds:
  assumes "r \<in> set (rank_pct xs)"
  shows "0 < r \<and> r \<le> 1"
proof -
  from assms obtain v where v: "v \<in> set xs"
    and r: "r = (real (length (filter (\<lambda>x. x < v) xs))
                 + (real (length (filter (\<lambda>x. x = v) xs)) + 1) / 2) / real (length xs)"
    by (auto simp: rank_pct_def)
  let ?l = "length (filter (\<lambda>x. x < v) xs)" and ?e = "length (filter (\<lambda>x. x = v) xs)"
  from v have n: "0 < length xs"
    by (cases xs) auto
  from v have "filter (\<lambda>x. x = v) xs \<noteq> []"
    by (auto simp: filter_empty_conv)
  then have e: "1 \<le> ?e"
    by (cases "filter (\<lambda>x. x = v) xs") auto
  have "?l + ?e \<le> length xs"
    by (rule filter_less_equal_length)
  then have "real ?l + real ?e \<le> real (length xs)"
    by (metis of_nat_add of_nat_le_iff)
  moreover from e have "(real ?e + 1) / 2 \<le> real ?e"
    by simp
  ultimately have up: "real ?l + (real ?e + 1) / 2 \<le> real (length xs)"
    by linarith
  have low: "0 < real ?l + (real ?e + 1) / 2"
    by (simp add: add_nonneg_pos)
  from n low up show ?thesis
    unfolding r by simp
qed

text \<open>
  C4. The \<^verbatim>\<open>percentile_rank\<close> column holds the percentage rank of each row's predicted
  value within the batch, \<^verbatim>\<open>rank(pct=True) * 100\<close>, and every one of its values is from 0
  to 100.
\<close>

theorem percentile_rank_bounds:
  assumes "enrich d ps gs = Inr out"
  shows "get_col out ''percentile_rank'' = Some (map Num (percentile_rank ps))
       \<and> (\<forall>r\<in>set (percentile_rank ps). 0 \<le> r \<and> r \<le> 100)"
proof -
  have "0 \<le> r \<and> r \<le> 100" if "r \<in> set (percentile_rank ps)" for r
  proof -
    from that obtain q where "q \<in> set (rank_pct ps)" and "r = q * 100"
      by (auto simp: percentile_rank_def)
    with rank_pct_bounds[of q ps] show ?thesis
      by simp
  qed
  with enrich_prediction_columns(3)[OF assms] show ?thesis
    by blast
qed

theorem percentile_rank_bounds_witness:
  "enrich [(''customer_id'', [Txt ''C1'', Txt ''C2'', Txt ''C3''])] [100, 500, 100]
       [Low_Value, High_Value, Low_Value]
     = Inr [(''customer_id'', [Txt ''C1'', Txt ''C2'', Txt ''C3'']),
            (''predicted_clv'', [Num 100, Num 500, Num 100]),
            (''customer_segment'', [Txt ''Low Value'', Txt ''High Value'', Txt ''Low Value'']),
            (''percentile_rank'', [Num 50, Num 100, Num 50]),
            (''confidence_lower'', [Num 80, Num 400, Num 80]),
            (''confidence_upper'', [Num 120, Num 600, Num 120]),
            (''churn_risk'', [Num 0.5, Num 0.5, Num 0.5])]
   \<and> percentile_rank [100, 500, 100] = [50, 100, 50]
   \<and> (0::real) \<le> 50 \<and> (50::real) \<le> 100"
proof -
  have run: "enrich [(''customer_id'', [Txt ''C1'', Txt ''C2'', Txt ''C3''])] [100, 500, 100]
       [Low_Value, High_Value, Low_Value]
     = Inr [(''customer_id'', [Txt ''C1'', Txt ''C2'', Txt ''C3'']),
            (''predicted_clv'', [Num 100, Num 500, Num 100]),
            (''customer_segment'', [Txt ''Low Value'', Txt ''High Value'', Txt ''Low Value'']),
            (''percentile_rank'', [Num 50, Num 100, Num 50]),
            (''confidence_lower'', [Num 80, Num 400, Num 80]),
            (''confidence_upper'', [Num 120, Num 600, Num 120]),
            (''churn_risk'', [Num 0.5, Num 0.5, Num 0.5])]"
    by (simp add: enrich_eval)
  have ranks: "percentile_rank [100, 500, 100] = [50, 100, 50]"
    by (simp add: percentile_rank_def rank_pct_def)
  show ?thesis
    using run ranks percentile_rank_bounds[OF run] by simp
qed

section \<open>The prediction step and the stored predictions\<close>

text \<open>
  C5. When the customer table has no \<^verbatim>\<open>customer_id\<close> column and a prediction is asked
  for, the step only reports the error: whatever the predictor is, none of its methods
  bears on the outcome, and the session state, the stored predictions with it, stays
  as it was.
\<close>

theorem missing_customer_id_rejected:
  assumes "''customer_id'' \<notin> set (columns d)"
    and "clicked \<or> trigger_prediction s"
  shows "prediction_step P clicked d s
       = ([Error ''Invalid customer data format. Please check your input data.''], s)"
  using assms by (simp add: prediction_step_def)

theorem missing_customer_id_rejected_witness:
  "''customer_id'' \<notin> set (columns [(''age'', [Num 35])])
   \<and> prediction_step
        \<lparr>create_advanced_features = Inr, prepare_features_for_prediction = Inr,
         predict_clv = (\<lambda>X. Inr [250]), segment_customers = (\<lambda>p. Inr [Medium_Value])\<rparr>
        True [(''age'', [Num 35])]
        \<lparr>predictions = Some [(''customer_id'', [Txt ''C0''])], customer_data = None,
         manual_customers = [], trigger_prediction = False\<rparr>
     = ([Error ''Invalid customer data format. Please check your input data.''],
        \<lparr>predictions = Some [(''customer_id'', [Txt ''C0''])], customer_data = None,
         manual_customers = [], trigger_prediction = False\<rparr>)"
proof -
  have absent: "''customer_id'' \<notin> set (columns [(''age'', [Num 35])])"
    by (simp add: columns_def)
  show ?thesis
    using absent missing_customer_id_rejected[OF absent, of True] by simp
qed

lemma pipeline_Inr_iff:
  "pipeline P d = Inr df \<longleftrightarrow>
     (\<exists>processed X raw df0 segs.
        create_advanced_features P d = Inr processed
        \<and> prepare_features_for_prediction P processed = Inr X
        \<and> predict_clv P X = Inr raw
        \<and> attach_predictions d raw = Inr df0
        \<and> segment_customers P raw = Inr segs
        \<and> attach_derived df0 raw segs = Inr df)"
  unfolding pipeline_def and_then_Inr_iff by blast

lemma pipeline_Inl_iff:
  "pipeline P d = Inl e \<longleftrightarrow>
     create_advanced_features P d = Inl e
     \<or> (\<exists>processed. create_advanced_features P d = Inr processed
          \<and> (prepare_features_for_prediction P processed = Inl e
             \<or> (\<exists>X. prepare_features_for_prediction P processed = Inr X
                  \<and> (predict_clv P X = Inl e
                     \<or> (\<exists>raw. predict_clv P X = Inr raw
                          \<and> (attach_predictions d raw = Inl e
                             \<or> (\<exists>df0. attach_predictions d raw = Inr df0
                                  \<and> (segment_customers P raw = Inl e
                                     \<or> (\<exists>segs. segment_customers P raw = Inr segs
                                          \<and> attach_derived df0 raw segs = Inl e)))))))))"
  unfolding pipeline_def and_then_Inl_iff by blast

text \<open>
  C10. The pipeline raises exactly when one of its steps does (feature creation,
  alignment, prediction, the assignment of the predictions, segmentation, or the
  derived columns), and then the prediction step leaves the session state, the stored
  predictions with it, exactly as it was. The stored predictions are replaced only by
  the table that the pipeline returns when every step has completed.
\<close>

theorem prediction_step_atomic:
  "(case pipeline P d of
      Inl e \<Rightarrow> snd (prediction_step P clicked d s) = s
    | Inr df \<Rightarrow>
        snd (prediction_step P clicked d s)
          = (if (clicked \<or> trigger_prediction s) \<and> ''customer_id'' \<in> set (columns d)
             then s\<lparr>predictions := Some df, trigger_prediction := False\<rparr> else s))
   \<and> (\<forall>e. pipeline P d = Inl e \<longleftrightarrow>
          create_advanced_features P d = Inl e
          \<or> (\<exists>processed. create_advanced_features P d = Inr processed
               \<and> (prepare_features_for_prediction P processed = Inl e
                  \<or> (\<exists>X. prepare_features_for_prediction P processed = Inr X
                       \<and> (predict_clv P X = Inl e
                          \<or> (\<exists>raw. predict_clv P X = Inr raw
                               \<and> (attach_predictions d raw = Inl e
                                  \<or> (\<exists>df0. attach_predictions d raw = Inr df0
                                       \<and> (segment_customers P raw = Inl e
                                          \<or> (\<exists>segs. segment_customers P raw = Inr segs
                                               \<and> attach_derived df0 raw segs = Inl e))))))))))"
proof -
  have "snd (prediction_step P clicked d s) = s" if "pipeline P d = Inl e" for e
    using that by (simp add: prediction_step_def)
  moreover have "snd (prediction_step P clicked d s)
          = (if (clicked \<or> trigger_prediction s) \<and> ''customer_id'' \<in> set (columns d)
             then s\<lparr>predictions := Some df, trigger_prediction := False\<rparr> else s)"
    if "pipeline P d = Inr df" for df
    using that by (simp add: prediction_step_def)
  ultimately have "case pipeline P d of
      Inl e \<Rightarrow> snd (prediction_step P clicked d s) = s
    | Inr df \<Rightarrow>
        snd (prediction_step P clicked d s)
          = (if (clicked \<or> trigger_prediction s) \<and> ''customer_id'' \<in> set (columns d)
             then s\<lparr>predictions := Some df, trigger_prediction := False\<rparr> else s)"
    by (cases "pipeline P d") simp_all
  then show ?thesis
    using pipeline_Inl_iff[of P d] by blast
qed

text \<open>
  A run in which the segmentation raises after the prediction has succeeded: the
  predictions stored before are still there.
\<close>

theorem prediction_step_atomic_witness:
  "pipeline
     \<lparr>create_advanced_features = Inr, prepare_features_for_prediction = Inr,
      predict_clv = (\<lambda>X. Inr [250]), segment_customers = (\<lambda>p. Inl (Raised ''not fitted''))\<rparr>
     [(''customer_id'', [Txt ''C1''])] = Inl (Raised ''not fitted'')
   \<and> snd (prediction_step
        \<lparr>create_advanced_features = Inr, prepare_features_for_prediction = Inr,
         predict_clv = (\<lambda>X. Inr [250]), segment_customers = (\<lambda>p. Inl (Raised ''not fitted''))\<rparr>
        True [(''customer_id'', [Txt ''C1''])]
        \<lparr>predictions = Some [(''customer_id'', [Txt ''C0''])], customer_data = None,
         manual_customers = [], trigger_prediction = True\<rparr>)
     = \<lparr>predictions = Some [(''customer_id'', [Txt ''C0''])], customer_data = None,
        manual_customers = [], trigger_prediction = True\<rparr>"
proof -
  let ?P = "\<lparr>create_advanced_features = Inr, prepare_features_for_prediction = Inr,
      predict_clv = (\<lambda>X. Inr [250]),
      segment_customers = (\<lambda>p. Inl (Raised ''not fitted''))\<rparr>
      :: (table, table) predictor"
  let ?S = "\<lparr>predictions = Some [(''customer_id'', [Txt ''C0''])], customer_data = None,
      manual_customers = [], trigger_prediction = True\<rparr>"
  have raised: "pipeline ?P [(''customer_id'', [Txt ''C1''])] = Inl (Raised ''not fitted'')"
    by (simp add: pipeline_def and_then_def attach_predictions_def assign_values_def
        nrows_def)
  have "snd (prediction_step ?P True [(''customer_id'', [Txt ''C1''])] ?S) = ?S"
    using prediction_step_atomic[where P = ?P and d = "[(''customer_id'', [Txt ''C1''])]"
        and clicked = True and s = ?S, THEN conjunct1]
    unfolding raised by simp
  with raised show ?thesis
    by simp
qed

section \<open>Segmentation is monotonic\<close>

text \<open>
  C8, against the segmentation modelled from the specification. For any two predicted
  values of a batch, the first not above the second, the label of the first is not
  above the label of the second in the order low, medium, high.
\<close>

theorem segmentation_monotone:
  assumes "i < length ps" and "j < length ps" and "ps ! i \<le> ps ! j"
  shows "segment_le (segment_by_thresholds th ps ! i) (segment_by_thresholds th ps ! j)"
  using assms by (simp add: segment_by_thresholds_def segment_le_def segment_of_def)

theorem segmentation_monotone_witness:
  "segment_by_thresholds \<lparr>low_cut = 200, high_cut = 400\<rparr> [100, 500]
     = [Low_Value, High_Value]
   \<and> segment_le (segment_by_thresholds \<lparr>low_cut = 200, high_cut = 400\<rparr> [100, 500] ! 0)
       (segment_by_thresholds \<lparr>low_cut = 200, high_cut = 400\<rparr> [100, 500] ! 1)"
proof -
  have "segment_by_thresholds \<lparr>low_cut = 200, high_cut = 400\<rparr> [100, 500]
     = [Low_Value, High_Value]"
    by (simp add: segment_by_thresholds_def segment_of_def)
  moreover have "(0::nat) < length [100, 500 :: real]" "(1::nat) < length [100, 500 :: real]"
    "[100, 500 :: real] ! 0 \<le> [100, 500] ! 1"
    by simp_all
  note segmentation_monotone[OF this, of "\<lparr>low_cut = 200, high_cut = 400\<rparr>"]
  ultimately show ?thesis
    by simp
qed

section \<open>The output table\<close>

text \<open>
  C7, as the code has it. The output table has the input's columns in their order,
  followed by those of \<^verbatim>\<open>predicted_clv\<close>, \<^verbatim>\<open>customer_segment\<close>, \<^verbatim>\<open>percentile_rank\<close>,
  \<^verbatim>\<open>confidence_lower\<close>, \<^verbatim>\<open>confidence_upper\<close> and \<^verbatim>\<open>churn_risk\<close> that the input does
  not have already; all six are columns of the output; and every input column that
  does not bear one of these six names, so every column of a customer record, keeps
  its values in their row order.
\<close>

theorem output_table_frame:
  assumes "enrich d ps gs = Inr out"
  shows "columns out = columns d @ filter (\<lambda>c. c \<notin> set (columns d)) new_columns
       \<and> set new_columns \<subseteq> set (columns out)
       \<and> (\<forall>c. c \<notin> set new_columns \<longrightarrow> get_col out c = get_col d c)
       \<and> (\<forall>c\<in>set customer_record_columns. get_col out c = get_col d c)"
proof -
  have cols: "columns out = columns d @ filter (\<lambda>c. c \<notin> set (columns d)) new_columns"
    by (rule enrich_columns[OF assms])
  then have "set new_columns \<subseteq> set (columns out)"
    by auto
  moreover have frame: "get_col out c = get_col d c" if "c \<notin> set new_columns" for c
    by (rule enrich_frame[OF assms that])
  moreover have "get_col out c = get_col d c" if "c \<in> set customer_record_columns" for c
  proof -
    from that have "c \<notin> set new_columns"
      by (auto simp: customer_record_columns_def new_columns_def)
    then show ?thesis
      by (rule frame)
  qed
  ultimately show ?thesis
    using cols by blast
qed

theorem output_table_frame_witness:
  "enrich [(''customer_id'', [Txt ''C1'', Txt ''C2'']),
           (''avg_order_value'', [Num 50, Num 20]),
           (''days_since_last_purchase'', [Num 10, Num 40])]
       [100, 500] [Low_Value, High_Value]
     = Inr [(''customer_id'', [Txt ''C1'', Txt ''C2'']),
            (''avg_order_value'', [Num 50, Num 20]),
            (''days_since_last_purchase'', [Num 10, Num 40]),
            (''predicted_clv'', [Num 100, Num 500]),
            (''customer_segment'', [Txt ''Low Value'', Txt ''High Value'']),
            (''percentile_rank'', [Num 50, Num 100]),
            (''confidence_lower'', [Num 80, Num 400]),
            (''confidence_upper'', [Num 120, Num 600]),
            (''churn_risk'', [Num 0.25, Num 1])]
   \<and> columns [(''customer_id'', [Txt ''C1'', Txt ''C2'']),
            (''avg_order_value'', [Num 50, Num 20]),
            (''days_since_last_purchase'', [Num 10, Num 40]),
            (''predicted_clv'', [Num 100, Num 500]),
            (''customer_segment'', [Txt ''Low Value'', Txt ''High Value'']),
            (''percentile_rank'', [Num 50, Num 100]),
            (''confidence_lower'', [Num 80, Num 400]),
            (''confidence_upper'', [Num 120, Num 600]),
            (''churn_risk'', [Num 0.25, Num 1])]
     = [''customer_id'', ''avg_order_value'', ''days_since_last_purchase''] @ new_columns"
proof -
  have run: "enrich [(''customer_id'', [Txt ''C1'', Txt ''C2'']),
           (''avg_order_value'', [Num 50, Num 20]),
           (''days_since_last_purchase'', [Num 10, Num 40])]
       [100, 500] [Low_Value, High_Value]
     = Inr [(''customer_id'', [Txt ''C1'', Txt ''C2'']),
            (''avg_order_value'', [Num 50, Num 20]),
            (''days_since_last_purchase'', [Num 10, Num 40]),
            (''predicted_clv'', [Num 100, Num 500]),
            (''customer_segment'', [Txt ''Low Value'', Txt ''High Value'']),
            (''percentile_rank'', [Num 50, Num 100]),
            (''confidence_lower'', [Num 80, Num 400]),
            (''confidence_upper'', [Num 120, Num 600]),
            (''churn_risk'', [Num 0.25, Num 1])]"
    by (simp add: enrich_eval)
  show ?thesis
    using run output_table_frame[OF run, THEN conjunct1]
    by (simp add: columns_def new_columns_def)
qed

text \<open>
  C7 as stated, that no input column is modified, fails on a table that already has a
  column of one of the six names, such as a table exported by the application and
  loaded again: its \<^verbatim>\<open>churn_risk\<close> column is overwritten where it stands.
\<close>

theorem output_table_frame_counterexample:
  "enrich [(''customer_id'', [Txt ''C1'']), (''days_since_last_purchase'', [Num 30]),
           (''churn_risk'', [Num 0.25])]
       [250] [Medium_Value]
     = Inr [(''customer_id'', [Txt ''C1'']), (''days_since_last_purchase'', [Num 30]),
            (''churn_risk'', [Num 1]), (''predicted_clv'', [Num 250]),
            (''customer_segment'', [Txt ''Medium Value'']), (''percentile_rank'', [Num 100]),
            (''confidence_lower'', [Num 200]), (''confidence_upper'', [Num 300])]
   \<and> get_col [(''customer_id'', [Txt ''C1'']), (''days_since_last_purchase'', [Num 30]),
           (''churn_risk'', [Num 0.25])] ''churn_risk'' = Some [Num 0.25]
   \<and> get_col [(''customer_id'', [Txt ''C1'']), (''days_since_last_purchase'', [Num 30]),
            (''churn_risk'', [Num 1]), (''predicted_clv'', [Num 250]),
            (''customer_segment'', [Txt ''Medium Value'']), (''percentile_rank'', [Num 100]),
            (''confidence_lower'', [Num 200]), (''confidence_upper'', [Num 300])]
        ''churn_risk'' = Some [Num 1]"
  by (simp add: enrich_eval)

section \<open>The churn risk\<close>

lemma nonneg_cell_Num: "nonneg_cell x \<longleftrightarrow> (\<exists>r. x = Num r \<and> 0 \<le> r)"
  by (cases x) (simp_all add: nonneg_cell_def)

lemma foldl_fmax_numbers:
  "list_all nonneg_cell ys \<Longrightarrow>
     \<exists>m. foldl fmax (Num a) ys = Num m \<and> a \<le> m \<and> (\<forall>r. Num r \<in> set ys \<longrightarrow> r \<le> m)"
proof (induction ys arbitrary: a)
  case Nil
  then show ?case by simp
next
  case (Cons y ys)
  from Cons.prems have head: "nonneg_cell y" and rest: "list_all nonneg_cell ys"
    by simp_all
  from head obtain b where y: "y = Num b"
    by (auto simp: nonneg_cell_Num)
  from Cons.IH[OF rest, of "max a b"] obtain m
    where m: "foldl fmax (Num (max a b)) ys = Num m" "max a b \<le> m"
      "\<forall>r. Num r \<in> set ys \<longrightarrow> r \<le> m"
    by blast
  then show ?case
    using y by auto
qed

lemma series_max_numbers:
  assumes "list_all nonneg_cell days" and "series_max days = Inr (Num m)"
  shows "\<forall>r. Num r \<in> set days \<longrightarrow> r \<le> m"
proof -
  from assms(1) have no_txt: "\<not> list_ex is_txt days"
    by (auto simp: list_all_iff list_ex_iff nonneg_cell_Num is_txt_def)
  from assms(1) have keep: "filter (\<lambda>x. x \<noteq> NaN) days = days"
    by (auto simp: list_all_iff nonneg_cell_Num filter_id_conv)
  show ?thesis
  proof (cases days)
    case Nil
    with assms(2) show ?thesis
      by (simp add: series_max_def)
  next
    case (Cons y ys)
    with assms(1) have head: "nonneg_cell y" and rest: "list_all nonneg_cell ys"
      by simp_all
    from head obtain a where y: "y = Num a"
      by (auto simp: nonneg_cell_Num)
    from foldl_fmax_numbers[OF rest, of a] obtain m'
      where m': "foldl fmax (Num a) ys = Num m'" "a \<le> m'" "\<forall>r. Num r \<in> set ys \<longrightarrow> r \<le> m'"
      by blast
    from assms(2) no_txt keep Cons y m'(1) have "m' = m"
      by (simp add: series_max_def)
    with m' Cons y show ?thesis
      by auto
  qed
qed

lemma enrich_churn_risk_column:
  assumes "enrich d ps gs = Inr out"
    and "get_col d ''days_since_last_purchase'' = Some days"
  shows "\<exists>risk. churn_risk days = Inr risk \<and> get_col out ''churn_risk'' = Some risk"
proof -
  let ?df = "add_confidence (add_percentile_rank
       (set_col ''customer_segment'' (map (\<lambda>g. Txt (label g)) gs)
          (set_col ''predicted_clv'' (map Num ps) d)) ps) ps"
  from assms(1) have step: "add_churn_risk ?df = Inr out"
    by (simp add: enrich_steps)
  have "get_col ?df ''days_since_last_purchase'' = Some days"
    using assms(2)
    by (simp add: add_confidence_def add_percentile_rank_def get_col_set_col_other)
  with step show ?thesis
    by (auto simp: add_churn_risk_def and_then_Inr_iff get_col_set_col_same)
qed

text \<open>
  C3. In a batch that has the column \<^verbatim>\<open>days_since_last_purchase\<close>, with every value a
  number that is not negative and a positive maximum \<open>m\<close>, the churn risk of every row
  is its value divided by \<open>m\<close>, a number from 0 to 1.
\<close>

theorem churn_risk_unit_interval:
  assumes "enrich d ps gs = Inr out"
    and "get_col d ''days_since_last_purchase'' = Some days"
    and "list_all nonneg_cell days"
    and "series_max days = Inr (Num m)" and "0 < m"
  shows "get_col out ''churn_risk'' = Some (map (\<lambda>x. fdiv x (Num m)) days)
       \<and> list_all unit_cell (map (\<lambda>x. fdiv x (Num m)) days)"
proof -
  from enrich_churn_risk_column[OF assms(1,2)] assms(4)
  have col: "get_col out ''churn_risk'' = Some (map (\<lambda>x. fdiv x (Num m)) days)"
    by (auto simp: churn_risk_def)
  have "unit_cell (fdiv x (Num m))" if "x \<in> set days" for x
  proof -
    from that assms(3) obtain r where r: "x = Num r" "0 \<le> r"
      by (auto simp: list_all_iff nonneg_cell_Num)
    with that series_max_numbers[OF assms(3,4)] have "r \<le> m"
      by blast
    with r assms(5) show ?thesis
      by (simp add: unit_cell_def)
  qed
  then have "list_all unit_cell (map (\<lambda>x. fdiv x (Num m)) days)"
    by (simp add: list_all_iff)
  with col show ?thesis
    by simp
qed

theorem churn_risk_unit_interval_witness:
  "enrich [(''customer_id'', [Txt ''C1'', Txt ''C2'']),
           (''days_since_last_purchase'', [Num 10, Num 40])]
       [100, 500] [Low_Value, High_Value]
     = Inr [(''customer_id'', [Txt ''C1'', Txt ''C2'']),
            (''days_since_last_purchase'', [Num 10, Num 40]),
            (''predicted_clv'', [Num 100, Num 500]),
            (''customer_segment'', [Txt ''Low Value'', Txt ''High Value'']),
            (''percentile_rank'', [Num 50, Num 100]),
            (''confidence_lower'', [Num 80, Num 400]),
            (''confidence_upper'', [Num 120, Num 600]),
            (''churn_risk'', [Num 0.25, Num 1])]
   \<and> series_max [Num 10, Num 40] = Inr (Num 40)
   \<and> list_all nonneg_cell [Num 10, Num 40]
   \<and> list_all unit_cell (map (\<lambda>x. fdiv x (Num 40)) [Num 10, Num 40])"
proof -
  let ?d = "[(''customer_id'', [Txt ''C1'', Txt ''C2'']),
           (''days_since_last_purchase'', [Num 10, Num 40])]"
  have run: "enrich ?d [100, 500] [Low_Value, High_Value]
     = Inr [(''customer_id'', [Txt ''C1'', Txt ''C2'']),
            (''days_since_last_purchase'', [Num 10, Num 40]),
            (''predicted_clv'', [Num 100, Num 500]),
            (''customer_segment'', [Txt ''Low Value'', Txt ''High Value'']),
            (''percentile_rank'', [Num 50, Num 100]),
            (''confidence_lower'', [Num 80, Num 400]),
            (''confidence_upper'', [Num 120, Num 600]),
            (''churn_risk'', [Num 0.25, Num 1])]"
    by (simp add: enrich_eval)
  have days: "get_col ?d ''days_since_last_purchase'' = Some [Num 10, Num 40]"
    by (simp add: get_col_def)
  have nonneg: "list_all nonneg_cell [Num 10, Num 40]"
    by (simp add: nonneg_cell_def)
  have top: "series_max [Num 10, Num 40] = Inr (Num 40)"
    by (simp add: series_max_def is_txt_def)
  have pos: "(0::real) < 40"
    by simp
  show ?thesis
    using run nonneg top churn_risk_unit_interval[OF run days nonneg top pos]
    by simp
qed

text \<open>
  C2 does not hold of the code. For a batch whose \<^verbatim>\<open>days_since_last_purchase\<close> values
  are all zero the maximum is zero, the division is \<open>0 / 0\<close>, and the churn risk of
  every row is NaN, not a default value: here for one customer entered with zero days
  since the last purchase.
\<close>

theorem churn_risk_zero_recency:
  "enrich [(''customer_id'', [Txt ''CUST_0001'']), (''days_since_last_purchase'', [Num 0])]
       [250] [Medium_Value]
     = Inr [(''customer_id'', [Txt ''CUST_0001'']), (''days_since_last_purchase'', [Num 0]),
            (''predicted_clv'', [Num 250]), (''customer_segment'', [Txt ''Medium Value'']),
            (''percentile_rank'', [Num 100]), (''confidence_lower'', [Num 200]),
            (''confidence_upper'', [Num 300]), (''churn_risk'', [NaN])]"
  by (simp add: enrich_eval)

section \<open>Manual entry reports every violation\<close>

lemma get_col_Some_columns: "get_col df c = Some v \<Longrightarrow> c \<in> set (columns df)"
  by (auto simp: get_col_def columns_def dest!: map_of_SomeD intro: rev_image_eqI)

lemma id_check_eq:
  "(if strip (customer_id f) = [] then [''Customer ID cannot be empty!'']
    else if \<not> empty_df (manual_customers s)
            \<and> ''customer_id'' \<in> set (columns (manual_customers s))
            \<and> Txt (strip (customer_id f))
                \<in> set (case get_col (manual_customers s) ''customer_id'' of
                          Some existing_ids \<Rightarrow> existing_ids | None \<Rightarrow> [])
         then [''Customer ID '' @ [CHR 0x27] @ customer_id f @ [CHR 0x27]
               @ '' already exists!'']
         else [])
   = map (\<lambda>c. message c f) (filter (\<lambda>c. violated c f s) [Id_Empty, Id_Duplicate])"
  by (auto split: option.splits dest: get_col_Some_columns)

lemma all_constraints_split:
  "all_constraints = [Id_Empty, Id_Duplicate] @ [Age_Range] @ [Purchases_Negative]
     @ [Order_Value_Not_Positive] @ [First_Below_One] @ [Last_Negative] @ [Last_After_First]"
  by (simp add: all_constraints_def)

text \<open>The errors collected are the messages of the violated constraints, in their order.\<close>

lemma validation_errors_eq:
  "validation_errors f s
     = map (\<lambda>c. message c f) (filter (\<lambda>c. violated c f s) all_constraints)"
proof -
  have one: "map (\<lambda>c. message c f) (filter (\<lambda>c. violated c f s) [c])
      = (if violated c f s then [message c f] else [])" for c
    by simp
  show ?thesis
    unfolding validation_errors_def id_check_eq all_constraints_split filter_append
      map_append one
    by (simp add: not_less)
qed

lemma constraint_listed: "c \<in> set all_constraints"
  by (cases c) (simp_all add: all_constraints_def)

text \<open>
  C6. When a form is submitted and violates a constraint, whichever it is, the notices
  shown are the error messages of all the constraints it violates, among them the
  message of this one, and the session state, the customer table with it, is left as
  it was: the record is not added.
\<close>

theorem manual_entry_reports_all_violations:
  assumes "add_customer f \<or> add_and_predict f" and "violated c f s"
  shows "fst (snd (handle_manual_entry f s))
           = map (\<lambda>c. Error (message c f)) (filter (\<lambda>c. violated c f s) all_constraints)
       \<and> Error (message c f) \<in> set (fst (snd (handle_manual_entry f s)))
       \<and> snd (snd (handle_manual_entry f s)) = s"
proof -
  from assms(2) have "c \<in> set (filter (\<lambda>c. violated c f s) all_constraints)"
    by (simp add: constraint_listed)
  then have listed: "message c f \<in> set (validation_errors f s)"
    unfolding validation_errors_eq set_map by (rule imageI)
  then have nonempty: "validation_errors f s \<noteq> []"
    by auto
  from assms(1) nonempty have shown: "fst (snd (handle_manual_entry f s))
      = map Error (validation_errors f s)"
    and state: "snd (snd (handle_manual_entry f s)) = s"
    by (simp_all add: handle_manual_entry_def Let_def)
  from shown have "fst (snd (handle_manual_entry f s))
      = map (\<lambda>c. Error (message c f)) (filter (\<lambda>c. violated c f s) all_constraints)"
    by (simp add: validation_errors_eq)
  moreover from shown listed
  have "Error (message c f) \<in> set (fst (snd (handle_manual_entry f s)))"
    by simp
  ultimately show ?thesis
    using state by simp
qed

text \<open>
  A form that repeats a customer id already held (with blanks around it), gives an age
  of 17 and has the last purchase before the first: three messages, nothing added.
\<close>

theorem manual_entry_reports_all_violations_witness:
  "violated Last_After_First
     \<lparr>customer_id = '' CUST_0001 '', age = 17, total_purchases = 5, avg_order_value = 50,
      days_since_first = 3, days_since_last = 5, acquisition_channel = ''Online'',
      location = ''Urban'', subscription_status = ''Active'', add_customer = True,
      add_and_predict = False\<rparr>
     \<lparr>predictions = None, customer_data = None,
      manual_customers = [(''customer_id'', [Txt ''CUST_0001'']), (''age'', [Num 35])],
      trigger_prediction = False\<rparr>
   \<and> fst (snd (handle_manual_entry
     \<lparr>customer_id = '' CUST_0001 '', age = 17, total_purchases = 5, avg_order_value = 50,
      days_since_first = 3, days_since_last = 5, acquisition_channel = ''Online'',
      location = ''Urban'', subscription_status = ''Active'', add_customer = True,
      add_and_predict = False\<rparr>
     \<lparr>predictions = None, customer_data = None,
      manual_customers = [(''customer_id'', [Txt ''CUST_0001'']), (''age'', [Num 35])],
      trigger_prediction = False\<rparr>))
     = [Error (''Customer ID '' @ [CHR 0x27] @ '' CUST_0001 '' @ [CHR 0x27]
              @ '' already exists!''),
        Error ''Age must be between 18 and 100!'',
        Error ''Days since last purchase cannot be greater than days since first purchase!'']
   \<and> snd (snd (handle_manual_entry
     \<lparr>customer_id = '' CUST_0001 '', age = 17, total_purchases = 5, avg_order_value = 50,
      days_since_first = 3, days_since_last = 5, acquisition_channel = ''Online'',
      location = ''Urban'', subscription_status = ''Active'', add_customer = True,
      add_and_predict = False\<rparr>
     \<lparr>predictions = None, customer_data = None,
      manual_customers = [(''customer_id'', [Txt ''CUST_0001'']), (''age'', [Num 35])],
      trigger_prediction = False\<rparr>))
     = \<lparr>predictions = None, customer_data = None,
        manual_customers = [(''customer_id'', [Txt ''CUST_0001'']), (''age'', [Num 35])],
        trigger_prediction = False\<rparr>"
proof -
  let ?f = "\<lparr>customer_id = '' CUST_0001 '', age = 17, total_purchases = 5,
      avg_order_value = 50, days_since_first = 3, days_since_last = 5,
      acquisition_channel = ''Online'', location = ''Urban'',
      subscription_status = ''Active'', add_customer = True, add_and_predict = False\<rparr>"
  let ?s = "\<lparr>predictions = None, customer_data = None,
      manual_customers = [(''customer_id'', [Txt ''CUST_0001'']), (''age'', [Num 35])],
      trigger_prediction = False\<rparr>"
  have submitted: "add_customer ?f \<or> add_and_predict ?f"
    by simp
  have late: "violated Last_After_First ?f ?s"
    by simp
  have stripped: "strip '' CUST_0001 '' = ''CUST_0001''"
    by (simp add: strip_def is_space_def)
  have which: "filter (\<lambda>c. violated c ?f ?s) all_constraints
      = [Id_Duplicate, Age_Range, Last_After_First]"
    by (simp add: all_constraints_def stripped empty_df_def nrows_def get_col_def)
  show ?thesis
    using late manual_entry_reports_all_violations[OF submitted late]
    unfolding which by simp
qed

end
